theory Spec2Isabelle
  imports Complex_Main
begin

section \<open>Python floats\<close>

text \<open>
  A Python float is an IEEE-754 double: a finite value, an infinity or NaN.  A finite
  double is modelled by its exact value as a real number; the sign of zero is not
  modelled.  Python ints are modelled as \<open>int\<close> (or \<open>nat\<close> for counters that start at zero
  and only grow), strings as \<open>string\<close>.
\<close>

datatype pyfloat = Finite real | PosInf | NegInf | NaN

text \<open>
  The result of an arithmetic operation on finite operands is the rounding of the exact
  result: a finite double near it, or an infinity on overflow.  The rounding function is a
  parameter \<open>rnd\<close> of every definition that computes with floats; round-to-nearest of
  binary64 is one such function, and the theorems hold for every rounding function where
  they do not say otherwise.  The other cases are those of IEEE-754.
\<close>

fun fneg :: "pyfloat \<Rightarrow> pyfloat" where
  "fneg (Finite x) = Finite (- x)"
| "fneg PosInf = NegInf"
| "fneg NegInf = PosInf"
| "fneg NaN = NaN"

fun fadd :: "(real \<Rightarrow> pyfloat) \<Rightarrow> pyfloat \<Rightarrow> pyfloat \<Rightarrow> pyfloat" where
  "fadd rnd (Finite x) (Finite y) = rnd (x + y)"
| "fadd rnd (Finite x) PosInf = PosInf"
| "fadd rnd (Finite x) NegInf = NegInf"
| "fadd rnd PosInf (Finite y) = PosInf"
| "fadd rnd PosInf PosInf = PosInf"
| "fadd rnd PosInf NegInf = NaN"
| "fadd rnd NegInf (Finite y) = NegInf"
| "fadd rnd NegInf NegInf = NegInf"
| "fadd rnd NegInf PosInf = NaN"
| "fadd rnd NaN b = NaN"
| "fadd rnd a NaN = NaN"

definition fsub :: "(real \<Rightarrow> pyfloat) \<Rightarrow> pyfloat \<Rightarrow> pyfloat \<Rightarrow> pyfloat" where
  "fsub rnd a b = fadd rnd a (fneg b)"

text \<open>The product of an infinity and a finite value or an infinity: by the signs, and NaN
  for a zero.\<close>

definition signed_inf :: "real \<Rightarrow> pyfloat" where
  "signed_inf s = (if s > 0 then PosInf else if s < 0 then NegInf else NaN)"

fun fmul :: "(real \<Rightarrow> pyfloat) \<Rightarrow> pyfloat \<Rightarrow> pyfloat \<Rightarrow> pyfloat" where
  "fmul rnd (Finite x) (Finite y) = rnd (x * y)"
| "fmul rnd (Finite x) PosInf = signed_inf x"
| "fmul rnd (Finite x) NegInf = signed_inf (- x)"
| "fmul rnd PosInf (Finite y) = signed_inf y"
| "fmul rnd NegInf (Finite y) = signed_inf (- y)"
| "fmul rnd PosInf PosInf = PosInf"
| "fmul rnd PosInf NegInf = NegInf"
| "fmul rnd NegInf PosInf = NegInf"
| "fmul rnd NegInf NegInf = PosInf"
| "fmul rnd NaN b = NaN"
| "fmul rnd a NaN = NaN"

text \<open>
  Division of floats.  Python raises \<open>ZeroDivisionError\<close> for a divisor that is zero; every
  division of the program has a divisor that is a non-zero constant or has been tested
  before the division, so this function is only used with a divisor that is not zero.
\<close>

fun fdiv :: "(real \<Rightarrow> pyfloat) \<Rightarrow> pyfloat \<Rightarrow> pyfloat \<Rightarrow> pyfloat" where
  "fdiv rnd (Finite x) (Finite y) = rnd (x / y)"
| "fdiv rnd (Finite x) PosInf = Finite 0"
| "fdiv rnd (Finite x) NegInf = Finite 0"
| "fdiv rnd PosInf (Finite y) = signed_inf y"
| "fdiv rnd NegInf (Finite y) = signed_inf (- y)"
| "fdiv rnd PosInf PosInf = NaN"
| "fdiv rnd PosInf NegInf = NaN"
| "fdiv rnd NegInf PosInf = NaN"
| "fdiv rnd NegInf NegInf = NaN"
| "fdiv rnd NaN b = NaN"
| "fdiv rnd a NaN = NaN"

text \<open>Comparisons: every comparison with NaN is false.\<close>

fun flt :: "pyfloat \<Rightarrow> pyfloat \<Rightarrow> bool" where
  "flt (Finite x) (Finite y) = (x < y)"
| "flt (Finite x) PosInf = True"
| "flt (Finite x) NegInf = False"
| "flt PosInf b = False"
| "flt NegInf (Finite y) = True"
| "flt NegInf PosInf = True"
| "flt NegInf NegInf = False"
| "flt a NaN = False"
| "flt NaN b = False"

definition feq :: "pyfloat \<Rightarrow> pyfloat \<Rightarrow> bool" where
  "feq a b \<longleftrightarrow> a = b \<and> a \<noteq> NaN"

definition fgt :: "pyfloat \<Rightarrow> pyfloat \<Rightarrow> bool" where
  "fgt a b = flt b a"

definition fle :: "pyfloat \<Rightarrow> pyfloat \<Rightarrow> bool" where
  "fle a b \<longleftrightarrow> flt a b \<or> feq a b"

definition fge :: "pyfloat \<Rightarrow> pyfloat \<Rightarrow> bool" where
  "fge a b = fle b a"

text \<open>
  The builtins \<open>max(a, b)\<close> and \<open>min(a, b)\<close> keep the first argument unless the second is
  greater (less).
\<close>

definition py_max :: "pyfloat \<Rightarrow> pyfloat \<Rightarrow> pyfloat" where
  "py_max a b = (if fgt b a then b else a)"

definition py_min :: "pyfloat \<Rightarrow> pyfloat \<Rightarrow> pyfloat" where
  "py_min a b = (if flt b a then b else a)"

text \<open>
  An int that takes part in float arithmetic is converted to a float.  The ints of the
  program that are converted are lengths and counts; they are below \<open>2 ^ 53\<close> and convert
  exactly.
\<close>

definition float_of_int :: "int \<Rightarrow> pyfloat" where
  "float_of_int i = Finite (real_of_int i)"

text \<open>The doubles that the decimal literals of the source denote, where the literal is not
  itself a double.\<close>

definition double_0_3 :: pyfloat where
  "double_0_3 = Finite (5404319552844595 / 18014398509481984)"

definition double_0_7 :: pyfloat where
  "double_0_7 = Finite (3152519739159347 / 4503599627370496)"

definition double_0_9 :: pyfloat where
  "double_0_9 = Finite (8106479329266893 / 9007199254740992)"

definition double_0_1 :: pyfloat where
  "double_0_1 = Finite (3602879701896397 / 36028797018963968)"

definition double_0_95 :: pyfloat where
  "double_0_95 = Finite (4278419646001971 / 4503599627370496)"



section \<open>Data model (core/lats/state.py)\<close>

text \<open>Fields of different classes that share a name are told apart by a prefix, since
  record fields are global.\<close>

record ConditionInfo =
  condition :: string
  need_true :: bool
  need_false :: bool
  parent_decision :: "string option"

text \<open>\<open>ConditionInfo.__eq__\<close> and \<open>ConditionInfo.__hash__\<close>; the builtin hash of a tuple is
  a parameter.\<close>

definition ConditionInfo_eq :: "ConditionInfo \<Rightarrow> ConditionInfo \<Rightarrow> bool" where
  "ConditionInfo_eq self other \<longleftrightarrow>
     condition self = condition other \<and>
     need_true self = need_true other \<and>
     need_false self = need_false other"

definition ConditionInfo_hash :: "(string \<times> bool \<times> bool \<Rightarrow> int) \<Rightarrow> ConditionInfo \<Rightarrow> int" where
  "ConditionInfo_hash py_hash self = py_hash (condition self, need_true self, need_false self)"

text \<open>\<open>cond in conds\<close> on a list compares with \<open>__eq__\<close>.\<close>

definition cond_in :: "ConditionInfo \<Rightarrow> ConditionInfo list \<Rightarrow> bool" where
  "cond_in c cs = list_ex (ConditionInfo_eq c) cs"

record ExecutionResult =
  new_test_name :: string
  new_test_compiled :: bool
  error_message :: "string option"
  suite_test_names :: "string list"
  statement_coverage :: pyfloat
  branch_coverage :: pyfloat
  mcdc_coverage :: pyfloat
  conditions_covered :: "ConditionInfo list"

definition failed :: "ExecutionResult \<Rightarrow> bool" where
  "failed r \<longleftrightarrow> \<not> new_test_compiled r \<or> error_message r \<noteq> None"

definition primary_coverage :: "ExecutionResult \<Rightarrow> pyfloat" where
  "primary_coverage r = mcdc_coverage r"

record TestState =
  function_signature :: string
  function_path :: string
  context' :: string
  coverage_target :: pyfloat
  test_case_names :: "string list"
  current_coverage :: pyfloat
  coverage_details :: "(string \<times> pyfloat) list"
  uncovered_conditions :: "ConditionInfo list"
  execution_errors :: "string list"
  learned_rules :: "string list"

definition is_terminal :: "TestState \<Rightarrow> bool" where
  "is_terminal s \<longleftrightarrow>
     fge (current_coverage s) (coverage_target s) \<or> length (uncovered_conditions s) = 0"

text \<open>\<open>TestState.clone_with_new_test\<close>.  An empty error message is falsy in Python, so it
  is not appended.  The local \<open>coverage_delta\<close> of the source is not used.\<close>

definition clone_with_new_test :: "TestState \<Rightarrow> ExecutionResult \<Rightarrow> TestState" where
  "clone_with_new_test s exec_result =
     (let new_uncovered =
            filter (\<lambda>cond. \<not> cond_in cond (conditions_covered exec_result))
                   (uncovered_conditions s);
          new_errors =
            (case error_message exec_result of
               Some msg \<Rightarrow>
                 if failed exec_result \<and> msg \<noteq> [] then execution_errors s @ [msg]
                 else execution_errors s
             | None \<Rightarrow> execution_errors s)
      in \<lparr> function_signature = function_signature s,
           function_path = function_path s,
           context' = context' s,
           coverage_target = coverage_target s,
           test_case_names = suite_test_names exec_result,
           current_coverage = primary_coverage exec_result,
           coverage_details =
             [(''statement'', statement_coverage exec_result),
              (''branch'', branch_coverage exec_result),
              (''mcdc'', mcdc_coverage exec_result)],
           uncovered_conditions = new_uncovered,
           execution_errors = new_errors,
           learned_rules = learned_rules s \<rparr>)"

section \<open>Reward (core/lats/reward.py)\<close>

record RewardConfig =
  coverage_weight :: pyfloat
  compile_reward :: pyfloat
  compile_penalty :: pyfloat
  condition_weight :: pyfloat
  suite_size_penalty :: pyfloat
  early_bonus :: pyfloat

definition default_RewardConfig :: RewardConfig where
  "default_RewardConfig =
     \<lparr> coverage_weight = Finite 10, compile_reward = Finite 2, compile_penalty = Finite (- 1),
       condition_weight = Finite 0.5, suite_size_penalty = fneg double_0_1,
       early_bonus = Finite 3 \<rparr>"

text \<open>
  The reward before clipping: steps 1 to 5 of \<open>RewardFunction.compute\<close>, one float
  operation of the source after the other.
\<close>

definition weighted_sum ::
  "(real \<Rightarrow> pyfloat) \<Rightarrow> RewardConfig \<Rightarrow> TestState \<Rightarrow> TestState \<Rightarrow> ExecutionResult \<Rightarrow> pyfloat" where
  "weighted_sum rnd config old_state new_state exec_result =
     (let reward0 = Finite 0;
          coverage_delta = fsub rnd (current_coverage new_state) (current_coverage old_state);
          coverage_reward = fmul rnd coverage_delta (coverage_weight config);
          reward1 = fadd rnd reward0 coverage_reward;
          reward2 = (if new_test_compiled exec_result
                     then fadd rnd reward1 (compile_reward config)
                     else fadd rnd reward1 (compile_penalty config));
          old_uncovered = int (length (uncovered_conditions old_state));
          new_uncovered = int (length (uncovered_conditions new_state));
          conditions_covered = old_uncovered - new_uncovered;
          condition_reward = fmul rnd (float_of_int conditions_covered) (condition_weight config);
          reward3 = fadd rnd reward2 condition_reward;
          size_penalty = fmul rnd (float_of_int (int (length (test_case_names new_state))))
                           (suite_size_penalty config);
          reward4 = fadd rnd reward3 size_penalty;
          reward5 = (if length (test_case_names old_state) = 0
                        \<and> new_test_compiled exec_result \<and> fgt coverage_delta (Finite 0)
                     then fadd rnd reward4 (early_bonus config) else reward4)
      in reward5)"

text \<open>\<open>RewardFunction.compute\<close>: the weighted sum, then step 6, the clipping with \<open>max\<close>
  and \<open>min\<close>.\<close>

definition compute ::
  "(real \<Rightarrow> pyfloat) \<Rightarrow> RewardConfig \<Rightarrow> TestState \<Rightarrow> TestState \<Rightarrow> ExecutionResult \<Rightarrow> pyfloat" where
  "compute rnd config old_state new_state exec_result =
     (let reward5 = weighted_sum rnd config old_state new_state exec_result;
          reward6 = py_max reward5 (Finite (- 5));
          reward7 = py_min reward6 (Finite 15)
      in reward7)"

section \<open>Exceptions\<close>

text \<open>
  The exceptions that the controller can raise: reading a field of \<open>None\<close> raises
  \<open>AttributeError\<close>, \<open>math.log\<close> and \<open>math.sqrt\<close> raise \<open>ValueError\<close> outside their domain.
\<close>

datatype failure = AttributeError | ValueError

section \<open>Tree nodes (core/lats/tree.py)\<close>

text \<open>
  Tree nodes are mutable objects that refer to each other (\<open>parent\<close>, \<open>children\<close>).  They
  live in a store, a list of nodes; a reference to a node is its index in the store.  A
  Python reference always points at an object, so the store is read with \<open>!\<close> at
  references that the program obtained from the store itself.
\<close>

datatype ActionType = INITIALIZE | EXPAND_BATCH | EXPAND_TARGETED | REFINE

record TreeNode =
  state :: TestState
  parent :: "nat option"
  children :: "nat list"
  visits :: nat
  total_reward :: pyfloat
  action :: ActionType
  depth :: nat
  value_estimate :: pyfloat

type_synonym store = "TreeNode list"

text \<open>The constructor \<open>TreeNode(state=..., parent=...)\<close> with the defaults of the dataclass.\<close>

definition new_TreeNode :: "TestState \<Rightarrow> nat option \<Rightarrow> TreeNode" where
  "new_TreeNode s p =
     \<lparr> state = s, parent = p, children = [], visits = 0, total_reward = Finite 0,
       action = INITIALIZE, depth = 0, value_estimate = Finite 0 \<rparr>"

definition is_fully_expanded :: "TreeNode \<Rightarrow> bool" where
  "is_fully_expanded n \<longleftrightarrow> length (children n) > 0"

text \<open>
  \<open>math.log\<close> of a count and \<open>math.sqrt\<close> of a float.  The logarithm of the C library is
  the exact logarithm rounded by a function \<open>rnd_log\<close> of its own, the square root is
  rounded like the arithmetic operations.
\<close>

definition math_log :: "(real \<Rightarrow> pyfloat) \<Rightarrow> nat \<Rightarrow> failure + pyfloat" where
  "math_log rnd_log n = (if n = 0 then Inl ValueError else Inr (rnd_log (ln (real n))))"

fun math_sqrt :: "(real \<Rightarrow> pyfloat) \<Rightarrow> pyfloat \<Rightarrow> failure + pyfloat" where
  "math_sqrt rnd (Finite x) = (if x < 0 then Inl ValueError else Inr (rnd (sqrt x)))"
| "math_sqrt rnd PosInf = Inr PosInf"
| "math_sqrt rnd NegInf = Inl ValueError"
| "math_sqrt rnd NaN = Inr NaN"

text \<open>\<open>TreeNode.ucb1_score\<close>: the score, or the exception of a math function.\<close>

definition ucb1_score ::
  "(real \<Rightarrow> pyfloat) \<Rightarrow> (real \<Rightarrow> pyfloat) \<Rightarrow> store \<Rightarrow> TreeNode \<Rightarrow> pyfloat \<Rightarrow> failure + pyfloat" where
  "ucb1_score rnd rnd_log ns self exploration_coef =
     (if visits self = 0 then Inr PosInf
      else case parent self of
             None \<Rightarrow> Inr (fdiv rnd (total_reward self) (float_of_int (int (visits self))))
           | Some p \<Rightarrow>
               if visits (ns ! p) = 0
               then Inr (fdiv rnd (total_reward self) (float_of_int (int (visits self))))
               else
                 (let exploitation = fdiv rnd (total_reward self) (float_of_int (int (visits self)))
                  in case math_log rnd_log (visits (ns ! p)) of
                       Inl e \<Rightarrow> Inl e
                     | Inr l \<Rightarrow>
                         (case math_sqrt rnd (fdiv rnd l (float_of_int (int (visits self)))) of
                            Inl e \<Rightarrow> Inl e
                          | Inr s \<Rightarrow>
                              (let exploration = fmul rnd exploration_coef s
                               in Inr (fadd rnd exploitation exploration)))))"

definition average_reward :: "(real \<Rightarrow> pyfloat) \<Rightarrow> TreeNode \<Rightarrow> pyfloat" where
  "average_reward rnd self =
     (if visits self = 0 then Finite 0
      else fdiv rnd (total_reward self) (float_of_int (int (visits self))))"

text \<open>\<open>TreeNode.update\<close>, on a node and on the node behind a reference.\<close>

definition update :: "(real \<Rightarrow> pyfloat) \<Rightarrow> TreeNode \<Rightarrow> pyfloat \<Rightarrow> TreeNode" where
  "update rnd self reward =
     self\<lparr> visits := visits self + 1, total_reward := fadd rnd (total_reward self) reward \<rparr>"

definition update_at :: "(real \<Rightarrow> pyfloat) \<Rightarrow> store \<Rightarrow> nat \<Rightarrow> pyfloat \<Rightarrow> store" where
  "update_at rnd ns i reward = ns[i := update rnd (ns ! i) reward]"

text \<open>\<open>TreeNode.add_child\<close>: \<open>self\<close> and \<open>child\<close> are references.\<close>

definition add_child :: "store \<Rightarrow> nat \<Rightarrow> nat \<Rightarrow> store" where
  "add_child nodes self child =
     (let nodes1 = nodes[child := (nodes ! child)\<lparr> parent := Some self \<rparr>];
          nodes2 = nodes1[child := (nodes1 ! child)\<lparr> depth := depth (nodes1 ! self) + 1 \<rparr>]
      in nodes2[self := (nodes2 ! self)\<lparr> children := children (nodes2 ! self) @ [child] \<rparr>])"

text \<open>
  Python's \<open>max(xs, key=...)\<close> evaluates the key of each element once, in order, and keeps
  the first of several maximal elements; an exception of the key function ends it.
\<close>

fun max_by_loop :: "('a \<Rightarrow> failure + pyfloat) \<Rightarrow> 'a \<Rightarrow> pyfloat \<Rightarrow> 'a list \<Rightarrow> failure + 'a" where
  "max_by_loop key best best_key [] = Inr best"
| "max_by_loop key best best_key (x # xs) =
     (case key x of
        Inl e \<Rightarrow> Inl e
      | Inr k \<Rightarrow> if fgt k best_key then max_by_loop key x k xs
                 else max_by_loop key best best_key xs)"

definition max_by :: "('a \<Rightarrow> failure + pyfloat) \<Rightarrow> 'a \<Rightarrow> 'a list \<Rightarrow> failure + 'a" where
  "max_by key x xs = (case key x of Inl e \<Rightarrow> Inl e | Inr k \<Rightarrow> max_by_loop key x k xs)"

definition best_child ::
  "(real \<Rightarrow> pyfloat) \<Rightarrow> (real \<Rightarrow> pyfloat) \<Rightarrow> store \<Rightarrow> TreeNode \<Rightarrow> pyfloat \<Rightarrow> failure + nat option" where
  "best_child rnd rnd_log ns self exploration_coef =
     (case children self of
        [] \<Rightarrow> Inr None
      | c # cs \<Rightarrow>
          (case (if feq exploration_coef (Finite 0)
                 then max_by (\<lambda>n. Inr (average_reward rnd (ns ! n))) c cs
                 else max_by (\<lambda>n. ucb1_score rnd rnd_log ns (ns ! n) exploration_coef) c cs) of
             Inl e \<Rightarrow> Inl e
           | Inr n \<Rightarrow> Inr (Some n)))"

section \<open>Session context (core/lats/context_manager.py)\<close>

text \<open>
  Timestamps are seconds on a clock; \<open>datetime.now()\<close> is passed in as \<open>now\<close>.  The lock of
  the context manager is not modelled: every operation runs from start to end alone.
\<close>

record SessionContext =
  session_id :: string
  s_function_signature :: string
  s_function_path :: string
  function_code :: string
  s_context :: string
  s_coverage_target :: pyfloat
  s_max_iterations :: int
  s_learned_rules :: "string list"
  total_prompt_tokens :: int
  total_completion_tokens :: int
  max_tokens :: int
  created_at :: real
  last_accessed :: real

definition add_token_usage :: "SessionContext \<Rightarrow> int \<Rightarrow> int \<Rightarrow> real \<Rightarrow> SessionContext" where
  "add_token_usage self prompt_tokens completion_tokens now =
     self\<lparr> total_prompt_tokens := total_prompt_tokens self + prompt_tokens,
           total_completion_tokens := total_completion_tokens self + completion_tokens,
           last_accessed := now \<rparr>"

definition total_tokens :: "SessionContext \<Rightarrow> int" where
  "total_tokens self = total_prompt_tokens self + total_completion_tokens self"

definition budget_exceeded :: "SessionContext \<Rightarrow> bool" where
  "budget_exceeded self \<longleftrightarrow> total_tokens self \<ge> max_tokens self"

text \<open>The cache is a dict that keeps insertion order: an association list with distinct
  keys.\<close>

record ContextManager =
  ttl_seconds :: int
  cache :: "(string \<times> SessionContext) list"

datatype py_error = KeyError string

definition getitem :: "(string \<times> 'v) list \<Rightarrow> string \<Rightarrow> py_error + 'v" where
  "getitem d k = (case map_of d k of None \<Rightarrow> Inl (KeyError k) | Some v \<Rightarrow> Inr v)"

definition get_stats :: "ContextManager \<Rightarrow> (string \<times> int) list" where
  "get_stats self =
     (let total_sessions = int (length (cache self));
          total_tokens = sum_list (map (\<lambda>(k, ctx). total_tokens ctx) (cache self));
          total_rules = sum_list (map (\<lambda>(k, ctx). int (length (s_learned_rules ctx))) (cache self))
      in [(''total_sessions'', total_sessions),
          (''total_tokens_used'', total_tokens),
          (''total_learned_rules'', total_rules),
          (''ttl_seconds'', ttl_seconds self)])"

section \<open>Request gateway (api/routes/lats.py)\<close>

record sessions_response =
  active_sessions :: int
  session_ids :: "string list"
  total_tokens_used :: int

text \<open>\<open>list_sessions\<close>, the handler of \<open>GET /sessions\<close>.  The dict literal evaluates its
  values in order, so the lookup in \<open>stats\<close> comes first; an exception leaves the handler.\<close>

definition list_sessions :: "ContextManager \<Rightarrow> py_error + sessions_response" where
  "list_sessions context_manager =
     (let stats = get_stats context_manager
      in case getitem stats ''active_sessions'' of
           Inl e \<Rightarrow> Inl e
         | Inr a \<Rightarrow>
             Inr \<lparr> active_sessions = a,
                   session_ids = map fst (cache context_manager),
                   total_tokens_used =
                     sum_list (map (\<lambda>(k, s). total_tokens s) (cache context_manager)) \<rparr>)"

section \<open>Language-model client (core/lats/llm_client.py)\<close>

text \<open>Decimal rendering of a non-negative integer, as \<open>str\<close> and f-strings do.\<close>

fun str_nat :: "nat \<Rightarrow> string" where
  "str_nat n =
     (if n < 10 then [''0123456789'' ! n]
      else str_nat (n div 10) @ [''0123456789'' ! (n mod 10)])"

declare str_nat.simps [simp del]

record LLMConfig =
  api_key :: string
  base_url :: string
  model :: string
  temperature :: pyfloat
  llm_max_tokens :: int
  timeout :: int

record payload =
  p_model :: string
  p_messages :: "(string \<times> string) list"
  p_temperature :: pyfloat
  p_max_tokens :: int

text \<open>
  What one \<open>client.post\<close> inside the \<open>try\<close> block can do: answer with status 200 and a
  body from which the content of the first choice is read (or reading it raises), answer
  with another status and a text, raise \<open>httpx.TimeoutException\<close>, or raise some other
  exception.
\<close>

datatype llm_reply =
    Ok200 string
  | Ok200_unreadable string
  | Status nat string
  | TimeoutException string
  | OtherException string

datatype exn = Exception string

definition max_retries :: nat where
  "max_retries = 3"

text \<open>
  The retry loop \<open>for attempt in range(max_retries)\<close>.  \<open>todo\<close> counts the attempts that are
  left, \<open>slept\<close> records the arguments of \<open>asyncio.sleep\<close> in order (seconds).  An exception
  raised in the \<open>else\<close> branch of the status test is raised inside the \<open>try\<close> block and is
  caught by \<open>except Exception\<close>.
\<close>

fun generate_loop :: "(nat \<Rightarrow> llm_reply) \<Rightarrow> nat \<Rightarrow> nat \<Rightarrow> nat list \<Rightarrow> (exn + string) \<times> nat list" where
  "generate_loop post 0 attempt slept =
     (Inl (Exception (''Failed to generate after '' @ str_nat max_retries @ '' attempts'')), slept)"
| "generate_loop post (Suc todo) attempt slept =
     (case post attempt of
        Ok200 content \<Rightarrow> (Inr content, slept)
      | Status status_code text \<Rightarrow>
          if status_code = 429 then
            (let wait_time = 2 ^ attempt
             in generate_loop post todo (attempt + 1) (slept @ [wait_time]))
          else
            (let error_msg = ''API error: '' @ str_nat status_code @ '' - '' @ text
             in if attempt = max_retries - 1
                then (Inl (Exception (''LLM generation failed: '' @ error_msg)), slept)
                else generate_loop post todo (attempt + 1) (slept @ [2 ^ attempt]))
      | TimeoutException e \<Rightarrow>
          if attempt = max_retries - 1
          then (Inl (Exception (''Request timeout after '' @ str_nat max_retries @ '' attempts'')),
                slept)
          else generate_loop post todo (attempt + 1) (slept @ [2 ^ attempt])
      | Ok200_unreadable e \<Rightarrow>
          if attempt = max_retries - 1
          then (Inl (Exception (''LLM generation failed: '' @ e)), slept)
          else generate_loop post todo (attempt + 1) (slept @ [2 ^ attempt])
      | OtherException e \<Rightarrow>
          if attempt = max_retries - 1
          then (Inl (Exception (''LLM generation failed: '' @ e)), slept)
          else generate_loop post todo (attempt + 1) (slept @ [2 ^ attempt]))"

text \<open>
  \<open>DeepSeekClient.generate\<close>.  \<open>post attempt payload\<close> is the reply to the request of the
  given attempt.  The result is the returned text or the raised exception, with the sleeps
  made on the way.
\<close>

definition generate ::
  "LLMConfig \<Rightarrow> (nat \<Rightarrow> payload \<Rightarrow> llm_reply) \<Rightarrow> string \<Rightarrow> pyfloat option \<Rightarrow> int option
     \<Rightarrow> string option \<Rightarrow> (exn + string) \<times> nat list" where
  "generate config post prompt temperature_arg max_tokens_arg system_message =
     (let temperature1 = (case temperature_arg of Some t \<Rightarrow> t | None \<Rightarrow> temperature config);
          max_tokens1 = (case max_tokens_arg of Some m \<Rightarrow> m | None \<Rightarrow> llm_max_tokens config);
          messages0 = (case system_message of
                         Some m \<Rightarrow> if m \<noteq> [] then [(''system'', m)] else []
                       | None \<Rightarrow> []);
          messages = messages0 @ [(''user'', prompt)];
          pl = \<lparr> p_model = model config, p_messages = messages,
                 p_temperature = temperature1, p_max_tokens = max_tokens1 \<rparr>
      in generate_loop (\<lambda>attempt. post attempt pl) max_retries 0 [])"

section \<open>Executor client (core/lats/execution_engine.py)\<close>

text \<open>
  The decoded JSON object of an executor response, read the way \<open>_parse_java_response\<close>
  reads it.  The keys \<open>status\<close> and \<open>log\<close> may be absent, \<open>null\<close> or a string.  A percentage
  is \<open>None\<close> if the key \<open>coverage\<close>, the key of the coverage kind or the key \<open>percentage\<close> is
  absent, and a float otherwise.  The keys of a condition may be absent (\<open>None\<close>) or have a
  value of their type; for \<open>parentDecision\<close>, \<open>None\<close> is also \<open>null\<close>.  A list of
  conditions that is absent is empty.
\<close>

datatype 'a field = Absent | Null | Value 'a

record cond_data =
  cd_condition :: "string option"
  cd_needTrue :: "bool option"
  cd_needFalse :: "bool option"
  cd_parentDecision :: "string option"

record java_response =
  r_status :: "string field"
  r_log :: "string field"
  r_statement_percentage :: "pyfloat option"
  r_branch_percentage :: "pyfloat option"
  r_mcdc_percentage :: "pyfloat option"
  r_uncoveredConditions :: "cond_data list"
  r_allConditions :: "cond_data list"

text \<open>
  What the statements from \<open>client.post\<close> to the parsing of the body can do inside the
  \<open>try\<close> block:
  \<^item> \<open>HTTPError\<close>: \<open>client.post\<close> or \<open>raise_for_status\<close> raises an \<open>httpx.HTTPError\<close> (a
    transport failure or an error status);
  \<^item> \<open>OtherError\<close>: \<open>client.post\<close>, \<open>raise_for_status\<close> or \<open>response.json\<close> raises another
    exception, or the body is not a JSON object, so that reading its status raises;
  \<^item> \<open>Body\<close>: the body is a JSON object of the shape above, which is parsed without an
    exception;
  \<^item> \<open>BodyRaises\<close>: the body is a JSON object whose parsing raises (a value of it has a
    type that the parser cannot handle); the flag tells whether its status is
    \<open>"success"\<close>, the text is that of the exception.
  The first two happen before \<open>execute_new_test\<close> writes its cache, the last one after.
\<close>

datatype 'a http_outcome =
    HTTPError string
  | OtherError string
  | Body 'a
  | BodyRaises bool string

definition get_or :: "'a option \<Rightarrow> 'a \<Rightarrow> 'a" where
  "get_or v d = (case v of Some x \<Rightarrow> x | None \<Rightarrow> d)"

text \<open>\<open>d.get(key, default)\<close> for a key that may hold \<open>null\<close>: the result is \<open>None\<close> for
  \<open>null\<close>.\<close>

definition field_get :: "'a field \<Rightarrow> 'a \<Rightarrow> 'a option" where
  "field_get f d = (case f of Absent \<Rightarrow> Some d | Null \<Rightarrow> None | Value x \<Rightarrow> Some x)"

definition parse_condition :: "cond_data \<Rightarrow> ConditionInfo" where
  "parse_condition cd =
     \<lparr> condition = get_or (cd_condition cd) [],
       need_true = get_or (cd_needTrue cd) False,
       need_false = get_or (cd_needFalse cd) False,
       parent_decision = cd_parentDecision cd \<rparr>"

definition parse_java_response ::
  "(real \<Rightarrow> pyfloat) \<Rightarrow> java_response \<Rightarrow> string option \<Rightarrow> string list \<Rightarrow> ExecutionResult" where
  "parse_java_response rnd response new_name suite_names =
     (let status = field_get (r_status response) ''error'';
          compiled = (status = Some ''success'');
          error_msg = (if compiled then None else field_get (r_log response) ''Unknown error'');
          uncovered = map parse_condition (r_uncoveredConditions response);
          all_conditions = map parse_condition (r_allConditions response);
          covered = (if all_conditions \<noteq> []
                     then filter (\<lambda>cond. \<not> cond_in cond uncovered) all_conditions
                     else [])
      in \<lparr> new_test_name = get_or new_name [],
           new_test_compiled = compiled,
           error_message = error_msg,
           suite_test_names = suite_names,
           statement_coverage =
             fdiv rnd (get_or (r_statement_percentage response) (Finite 0)) (Finite 100),
           branch_coverage =
             fdiv rnd (get_or (r_branch_percentage response) (Finite 0)) (Finite 100),
           mcdc_coverage =
             fdiv rnd (get_or (r_mcdc_percentage response) (Finite 0)) (Finite 100),
           conditions_covered = covered \<rparr>)"

text \<open>
  The executor behind the HTTP client.  Each operation takes the number of the call
  (\<open>tick\<close>), so the executor may answer the same request differently at different times.
  \<open>sha256_16\<close> is the first 16 hex digits of the SHA-256 of a test body.
\<close>

record executor =
  post_execute :: "nat \<Rightarrow> string \<times> string \<times> string \<times> string list \<Rightarrow> java_response http_outcome"
  post_get_coverage :: "nat \<Rightarrow> string \<times> string list \<Rightarrow> java_response http_outcome"
  post_get_conditions :: "nat \<Rightarrow> string \<Rightarrow> cond_data list http_outcome"
  sha256_16 :: "string \<Rightarrow> string"

type_synonym test_cache = "string \<rightharpoonup> string"

text \<open>The result that the \<open>except\<close> branch of \<open>get_suite_coverage\<close> builds.\<close>

definition coverage_error_result :: "string \<Rightarrow> string list \<Rightarrow> ExecutionResult" where
  "coverage_error_result e test_names =
     \<lparr> new_test_name = [], new_test_compiled = True,
       error_message = Some (''Coverage retrieval error: '' @ e),
       suite_test_names = test_names,
       statement_coverage = Finite 0, branch_coverage = Finite 0, mcdc_coverage = Finite 0,
       conditions_covered = [] \<rparr>"

definition get_suite_coverage ::
  "(real \<Rightarrow> pyfloat) \<Rightarrow> executor \<Rightarrow> nat \<Rightarrow> string \<Rightarrow> string list \<Rightarrow> ExecutionResult" where
  "get_suite_coverage rnd ex tick fpath test_names =
     (case post_get_coverage ex tick (fpath, test_names) of
        Body result \<Rightarrow> parse_java_response rnd result None test_names
      | HTTPError e \<Rightarrow> coverage_error_result e test_names
      | OtherError e \<Rightarrow> coverage_error_result e test_names
      | BodyRaises success e \<Rightarrow> coverage_error_result e test_names)"

text \<open>The result that an \<open>except\<close> branch of \<open>execute_new_test\<close> builds, with the prefix of
  its error message.\<close>

definition execution_error_result :: "string \<Rightarrow> string \<Rightarrow> string \<Rightarrow> string list \<Rightarrow> ExecutionResult" where
  "execution_error_result prefix e test_name existing_test_names =
     \<lparr> new_test_name = test_name, new_test_compiled = False,
       error_message = Some (prefix @ e),
       suite_test_names = existing_test_names,
       statement_coverage = Finite 0, branch_coverage = Finite 0, mcdc_coverage = Finite 0,
       conditions_covered = [] \<rparr>"

text \<open>\<open>ExecutionEngine.execute_new_test\<close> returns the result and the cache after the call.\<close>

definition execute_new_test ::
  "(real \<Rightarrow> pyfloat) \<Rightarrow> executor \<Rightarrow> nat \<Rightarrow> test_cache \<Rightarrow> string \<Rightarrow> string \<Rightarrow> string \<Rightarrow> string list
     \<Rightarrow> ExecutionResult \<times> test_cache" where
  "execute_new_test rnd ex tick tc fpath test_code test_name existing_test_names =
     (let test_hash = sha256_16 ex test_code
      in case tc test_hash of
           Some cached_name \<Rightarrow>
             (let suite_names = (if cached_name \<notin> set existing_test_names
                                 then existing_test_names @ [cached_name]
                                 else existing_test_names)
              in (get_suite_coverage rnd ex tick fpath suite_names, tc))
         | None \<Rightarrow>
             (case post_execute ex tick (fpath, test_code, test_name, existing_test_names) of
                Body result \<Rightarrow>
                  (let tc1 = (if r_status result = Value ''success''
                              then tc(test_hash \<mapsto> test_name) else tc)
                   in (parse_java_response rnd result (Some test_name)
                         (existing_test_names @ [test_name]), tc1))
              | BodyRaises success e \<Rightarrow>
                  (let tc1 = (if success then tc(test_hash \<mapsto> test_name) else tc)
                   in (execution_error_result ''Execution error: '' e test_name
                         existing_test_names, tc1))
              | HTTPError e \<Rightarrow>
                  (execution_error_result ''HTTP error: '' e test_name existing_test_names, tc)
              | OtherError e \<Rightarrow>
                  (execution_error_result ''Execution error: '' e test_name
                     existing_test_names, tc)))"

definition get_all_conditions :: "executor \<Rightarrow> nat \<Rightarrow> string \<Rightarrow> ConditionInfo list" where
  "get_all_conditions ex tick fpath =
     (case post_get_conditions ex tick fpath of
        Body conds \<Rightarrow> map parse_condition conds
      | HTTPError e \<Rightarrow> []
      | OtherError e \<Rightarrow> []
      | BodyRaises success e \<Rightarrow> [])"

section \<open>MCTS controller (core/lats/mcts_controller.py)\<close>

record MCTSConfig =
  max_iterations :: int
  exploration_coef :: pyfloat
  max_depth :: int
  expansion_k :: int
  min_k :: int
  max_k :: int
  adaptive_k :: bool
  enable_pruning :: bool
  prune_threshold :: pyfloat
  beam_width :: int
  cfg_coverage_target :: pyfloat
  max_no_progress_iters :: int
  verbose :: bool


text \<open>
  The state of the controller: the store of tree nodes, the fields of the class, the
  fingerprint cache of its execution engine, and the number of outbound calls made so far.
\<close>

record MCTSController =
  nodes :: store
  root :: "nat option"
  best_node :: "nat option"
  iterations :: int
  no_progress_count :: int
  last_best_coverage :: pyfloat
  engine_cache :: test_cache
  tick :: nat

text \<open>
  What the Python runtime contributes to the controller: the rounding of float arithmetic,
  the rounding of \<open>math.log\<close>, and \<open>list.sort(key=lambda x: x[1], reverse=True)\<close> on the
  list of kept candidates.  For rewards without NaN the sort is the stable sort by
  descending reward; its result on a list with NaN depends on the merge strategy of the
  interpreter, so the sort is a parameter.
\<close>

record runtime =
  rounding :: "real \<Rightarrow> pyfloat"
  rounding_log :: "real \<Rightarrow> pyfloat"
  sort_desc :: "(TestState \<times> pyfloat) list \<Rightarrow> (TestState \<times> pyfloat) list"

text \<open>Python slices \<open>xs[:k]\<close> and \<open>xs[-k:]\<close> (the latter for positive \<open>k\<close>).\<close>

definition slice_to :: "'a list \<Rightarrow> int \<Rightarrow> 'a list" where
  "slice_to xs k = (if k \<ge> 0 then take (nat k) xs else take (length xs - nat (- k)) xs)"

definition slice_last :: "'a list \<Rightarrow> nat \<Rightarrow> 'a list" where
  "slice_last xs k = drop (length xs - k) xs"

text \<open>\<open>_adaptive_k\<close>.  The quotient is a float division; \<open>0.3\<close> and \<open>0.7\<close> are the doubles
  that these literals denote.\<close>

definition adaptive_k' :: "(real \<Rightarrow> pyfloat) \<Rightarrow> MCTSConfig \<Rightarrow> TreeNode \<Rightarrow> int" where
  "adaptive_k' rnd config node =
     (if \<not> adaptive_k config then expansion_k config
      else
        (let coverage = current_coverage (state node);
             target = coverage_target (state node);
             progress = (if fgt target (Finite 0) then fdiv rnd coverage target else Finite 0)
         in if flt progress double_0_3 then max_k config
            else if flt progress double_0_7 then expansion_k config
            else min_k config))"

definition adaptive_temperature :: "pyfloat \<Rightarrow> pyfloat" where
  "adaptive_temperature coverage =
     (if flt coverage double_0_3 then double_0_9
      else if flt coverage double_0_7 then double_0_7
      else Finite 0.5)"

text \<open>
  The collaborators of \<open>_generate_candidates\<close>.  \<open>render\<close> is the prompt manager, which may
  raise (its templates are files); \<open>llm_post tick attempt\<close> is the reply of the language
  model to one request; \<open>extract_json\<close> is \<open>extract_json_from_response\<close>, with \<open>None\<close> for
  \<open>ValueError\<close>; \<open>py_hash\<close> is the builtin hash of a string; \<open>str_ConditionInfo\<close> is \<open>str\<close> on
  a condition; \<open>now\<close> is the clock.
\<close>

datatype prompt_request =
    RenderInitialize string string string "ConditionInfo list" "string list" int
  | RenderTargeted string string string "string list" "string list" "string list"
  | RenderBatch string "string list" "ConditionInfo list" "string list" "string list" int

text \<open>
  The parsed response as \<open>_generate_candidates\<close> looks at it: a dict with a key
  \<open>tests\<close>, a list, or anything else.  An entry is a dict with optional string values for
  \<open>code\<close> and \<open>name\<close>, or another value given by its \<open>str\<close>.
\<close>

datatype test_obj = TestDict "string option" "string option" | TestOther string

datatype json_data = TestsDict "test_obj list" | TestsList "test_obj list" | UnexpectedJson

record generator =
  render :: "prompt_request \<Rightarrow> exn + string"
  llm_config :: LLMConfig
  llm_post :: "nat \<Rightarrow> nat \<Rightarrow> payload \<Rightarrow> llm_reply"
  extract_json :: "string \<Rightarrow> json_data option"
  py_hash :: "string \<Rightarrow> int"
  str_ConditionInfo :: "ConditionInfo \<Rightarrow> string"
  now :: "nat \<Rightarrow> real"

text \<open>\<open>_get_recent_errors\<close>: a \<open>TreeNode\<close> has no attribute \<open>execution_result\<close>, so \<open>hasattr\<close>
  is false for every child and no error is collected.\<close>

definition get_recent_errors :: "store \<Rightarrow> nat \<Rightarrow> string list" where
  "get_recent_errors ns node = concat (map (\<lambda>child. []) (slice_last (children (ns ! node)) 10))"

text \<open>\<open>f"test_{n:03d}"\<close>.\<close>

definition test_name_for :: "nat \<Rightarrow> string" where
  "test_name_for n =
     (let digits = str_nat n in ''test_'' @ replicate (3 - length digits) (CHR ''0'') @ digits)"

text \<open>The loop over \<open>enumerate(tests_list[:k])\<close>; \<open>n\<close> is the size of the node's suite.\<close>

fun collect_candidates :: "nat \<Rightarrow> nat \<Rightarrow> test_obj list \<Rightarrow> (string \<times> string) list" where
  "collect_candidates n i [] = []"
| "collect_candidates n i (test_obj # rest) =
     (let (test_code, test_name) =
            (case test_obj of
               TestDict code name \<Rightarrow> (get_or code [], get_or name (test_name_for (n + i + 1)))
             | TestOther s \<Rightarrow> (s, test_name_for (n + i + 1)));
          test_name1 = (if test_name = [] then test_name_for (n + i + 1) else test_name)
      in (test_code, test_name1) # collect_candidates n (i + 1) rest)"

text \<open>\<open>str.strip()\<close>: the whitespace characters below code point 256.\<close>

definition is_space :: "char \<Rightarrow> bool" where
  "is_space c \<longleftrightarrow> of_char c \<in> {9, 10, 11, 12, 13, 28, 29, 30, 31, 32, 133, 160 :: nat}"

definition strip :: "string \<Rightarrow> string" where
  "strip s = rev (dropWhile is_space (rev (dropWhile is_space s)))"

fun deduplicate_loop ::
  "(string \<Rightarrow> int) \<Rightarrow> int set \<Rightarrow> string set \<Rightarrow> (string \<times> string) list \<Rightarrow> (string \<times> string) list" where
  "deduplicate_loop h seen_hashes seen_names [] = []"
| "deduplicate_loop h seen_hashes seen_names ((test_code, test_name) # rest) =
     (let code_hash = h (strip test_code)
      in if code_hash \<notin> seen_hashes \<and> test_name \<notin> seen_names
         then (test_code, test_name) #
                deduplicate_loop h (insert code_hash seen_hashes) (insert test_name seen_names) rest
         else deduplicate_loop h seen_hashes seen_names rest)"

definition deduplicate_candidates ::
  "(string \<Rightarrow> int) \<Rightarrow> (string \<times> string) list \<Rightarrow> string list \<Rightarrow> (string \<times> string) list" where
  "deduplicate_candidates h candidates existing_names =
     deduplicate_loop h {} (set existing_names) candidates"

text \<open>
  The first part of \<open>_generate_candidates\<close>: the generation mode and the arguments handed
  to the prompt manager.
\<close>

definition prompt_request_for ::
  "generator \<Rightarrow> store \<Rightarrow> nat \<Rightarrow> SessionContext \<Rightarrow> int \<Rightarrow> prompt_request" where
  "prompt_request_for g ns node session_ctx k =
     (let st = state (ns ! node);
          is_initialize = feq (current_coverage st) (Finite 0);
          is_targeted = (length (uncovered_conditions st) \<le> 3
                         \<and> fgt (current_coverage st) (Finite 0.5));
          recent_errors = get_recent_errors ns node
      in if is_initialize then
           RenderInitialize (s_function_signature session_ctx)
             (function_code session_ctx) (s_context session_ctx)
             (uncovered_conditions st) (s_learned_rules session_ctx) k
         else if is_targeted \<and> uncovered_conditions st \<noteq> [] then
           RenderTargeted (s_function_signature session_ctx)
             (str_ConditionInfo g (hd (uncovered_conditions st))) (s_context session_ctx)
             [] [] (s_learned_rules session_ctx)
         else
           RenderBatch (s_function_signature session_ctx)
             (slice_last (test_case_names st) 5) (slice_to (uncovered_conditions st) 10)
             (s_learned_rules session_ctx) recent_errors k)"

text \<open>
  \<open>_generate_candidates\<close> returns the candidates and the session context after the call.
  Every exception inside the outer \<open>try\<close> gives the empty list.
\<close>

definition generate_candidates ::
  "generator \<Rightarrow> nat \<Rightarrow> store \<Rightarrow> nat \<Rightarrow> SessionContext \<Rightarrow> int
     \<Rightarrow> (string \<times> string) list \<times> SessionContext" where
  "generate_candidates g t ns node session_ctx k =
     (let st = state (ns ! node);
          temp = adaptive_temperature (current_coverage st)
      in case render g (prompt_request_for g ns node session_ctx k) of
           Inl e \<Rightarrow> ([], session_ctx)
         | Inr prompt \<Rightarrow>
             (let prompt_tokens = int (length prompt) div 4
              in case fst (generate (llm_config g) (llm_post g t) prompt (Some temp) (Some 2048) None) of
                   Inl e \<Rightarrow> ([], session_ctx)
                 | Inr response \<Rightarrow>
                     (let completion_tokens = int (length response) div 4;
                          session1 = add_token_usage session_ctx prompt_tokens completion_tokens
                                       (now g t)
                      in case extract_json g response of
                           None \<Rightarrow> ([], session1)
                         | Some UnexpectedJson \<Rightarrow> ([], session1)
                         | Some (TestsDict tests_list) \<Rightarrow>
                             (deduplicate_candidates (py_hash g)
                                (collect_candidates (length (test_case_names st)) 0
                                   (slice_to tests_list k))
                                (test_case_names st), session1)
                         | Some (TestsList tests_list) \<Rightarrow>
                             (deduplicate_candidates (py_hash g)
                                (collect_candidates (length (test_case_names st)) 0
                                   (slice_to tests_list k))
                                (test_case_names st), session1))))"

text \<open>
  The loop of \<open>_expansion_and_simulation\<close> over the candidates.  It returns the list
  \<open>valid_children\<close> (child state and reward of every candidate that is not pruned), the
  fingerprint cache and the call counter.  The list \<open>rewards\<close> of the source is filled in
  step with \<open>valid_children\<close> and is its second projection.
\<close>

fun simulate_candidates ::
  "(real \<Rightarrow> pyfloat) \<Rightarrow> executor \<Rightarrow> MCTSConfig \<Rightarrow> RewardConfig \<Rightarrow> string \<Rightarrow> TestState
     \<Rightarrow> (string \<times> string) list \<Rightarrow> test_cache \<Rightarrow> nat
     \<Rightarrow> (TestState \<times> pyfloat) list \<times> test_cache \<times> nat" where
  "simulate_candidates rnd ex config rc fpath leaf_state [] tc t = ([], tc, t)"
| "simulate_candidates rnd ex config rc fpath leaf_state ((test_code, test_name) # rest) tc t =
     (let (exec_result, tc1) =
            execute_new_test rnd ex t tc fpath test_code test_name (test_case_names leaf_state);
          child_state = clone_with_new_test leaf_state exec_result;
          reward = compute rnd rc leaf_state child_state exec_result;
          (valid_children, tc2, t2) =
            simulate_candidates rnd ex config rc fpath leaf_state rest tc1 (t + 1)
      in if enable_pruning config \<and> flt reward (prune_threshold config)
         then (valid_children, tc2, t2)
         else ((child_state, reward) # valid_children, tc2, t2))"

text \<open>
  The loop that attaches the kept children to the leaf: the child node is allocated at the
  end of the store with \<open>parent=leaf\<close>, then \<open>leaf.add_child(child)\<close> and
  \<open>child.update(reward)\<close>.
\<close>

fun add_children :: "(real \<Rightarrow> pyfloat) \<Rightarrow> store \<Rightarrow> nat \<Rightarrow> (TestState \<times> pyfloat) list \<Rightarrow> store" where
  "add_children rnd ns leaf [] = ns"
| "add_children rnd ns leaf ((child_state, reward) # rest) =
     (let child = length ns;
          ns1 = ns @ [new_TreeNode child_state (Some leaf)];
          ns2 = add_child ns1 leaf child;
          ns3 = update_at rnd ns2 child reward
      in add_children rnd ns3 leaf rest)"

text \<open>\<open>_expansion_and_simulation\<close> returns the rewards, the controller and the session
  context.\<close>

definition expansion_and_simulation ::
  "runtime \<Rightarrow> generator \<Rightarrow> executor \<Rightarrow> MCTSConfig \<Rightarrow> RewardConfig \<Rightarrow> MCTSController \<Rightarrow> nat
     \<Rightarrow> SessionContext \<Rightarrow> pyfloat list \<times> MCTSController \<times> SessionContext" where
  "expansion_and_simulation rt g ex config rc self leaf session_ctx =
     (let k = adaptive_k' (rounding rt) config (nodes self ! leaf);
          (candidates, session1) =
             generate_candidates g (tick self) (nodes self) leaf session_ctx k;
          self1 = self\<lparr> tick := tick self + 1 \<rparr>
      in if candidates = [] then ([], self1, session1)
         else
           (let (valid_children, tc, t) =
                  simulate_candidates (rounding rt) ex config rc (s_function_path session1)
                    (state (nodes self1 ! leaf)) candidates (engine_cache self1) (tick self1);
                valid_children1 =
                  (if enable_pruning config \<and> int (length valid_children) > beam_width config
                   then slice_to (sort_desc rt valid_children) (beam_width config)
                   else valid_children);
                rewards = map snd valid_children1;
                ns = add_children (rounding rt) (nodes self1) leaf valid_children1
            in (rewards, self1\<lparr> nodes := ns, engine_cache := tc, tick := t \<rparr>, session1)))"

text \<open>
  \<open>_backpropagation\<close>: the loop \<open>while current is not None\<close> follows parent references and
  returns only if the chain of parents ends; \<open>None\<close> stands for a loop that does not return.
\<close>

partial_function (option) backprop_loop ::
  "(real \<Rightarrow> pyfloat) \<Rightarrow> store \<Rightarrow> nat option \<Rightarrow> pyfloat \<Rightarrow> store option" where
  "backprop_loop rnd ns current reward =
     (case current of
        None \<Rightarrow> Some ns
      | Some c \<Rightarrow>
          (let ns1 = update_at rnd ns c reward
           in backprop_loop rnd ns1 (parent (ns1 ! c)) reward))"

definition backpropagation :: "(real \<Rightarrow> pyfloat) \<Rightarrow> store \<Rightarrow> nat \<Rightarrow> pyfloat \<Rightarrow> store option" where
  "backpropagation rnd ns leaf reward = backprop_loop rnd ns (parent (ns ! leaf)) reward"

text \<open>
  \<open>_selection\<close>.  The third test in the loop body cannot succeed after the second; after
  it the node has a child, so \<open>best_child\<close> does not return \<open>None\<close>.  (If it did, the next
  turn of the loop would read a field of \<open>None\<close>, or the loop would end and return
  \<open>None\<close>.)
\<close>

function selection_loop :: "runtime \<Rightarrow> MCTSConfig \<Rightarrow> store \<Rightarrow> nat \<Rightarrow> int \<Rightarrow> failure + nat option" where
  "selection_loop rt config ns current d =
     (if d < max_depth config then
        (if is_terminal (state (ns ! current)) then Inr (Some current)
         else if \<not> is_fully_expanded (ns ! current) then Inr (Some current)
         else if children (ns ! current) = [] then Inr (Some current)
         else (case best_child (rounding rt) (rounding_log rt) ns (ns ! current) (exploration_coef config) of
                 Inl e \<Rightarrow> Inl e
               | Inr (Some c) \<Rightarrow> selection_loop rt config ns c (d + 1)
               | Inr None \<Rightarrow> if d + 1 < max_depth config then Inl AttributeError else Inr None))
      else (if d < max_depth config then Inr (Some current) else Inr None))"
  by pat_completeness auto
termination
  by (relation "measure (\<lambda>(rt, config, ns, current, d). nat (max_depth config - d))") auto

declare selection_loop.simps [simp del]

definition selection :: "runtime \<Rightarrow> MCTSConfig \<Rightarrow> store \<Rightarrow> nat \<Rightarrow> failure + nat option" where
  "selection rt config ns root_node = selection_loop rt config ns root_node 0"

definition update_best :: "MCTSController \<Rightarrow> nat \<Rightarrow> MCTSController" where
  "update_best self node =
     (case best_node self of
        None \<Rightarrow> self\<lparr> best_node := Some node \<rparr>
      | Some b \<Rightarrow>
          (let node_state = state (nodes self ! node);
               best_state = state (nodes self ! b)
           in if fgt (current_coverage node_state) (current_coverage best_state)
                 \<or> (feq (current_coverage node_state) (current_coverage best_state)
                     \<and> length (test_case_names node_state) < length (test_case_names best_state))
              then self\<lparr> best_node := Some node \<rparr>
              else self))"

definition update_best_from_children :: "MCTSController \<Rightarrow> nat \<Rightarrow> MCTSController" where
  "update_best_from_children self node =
     fold (\<lambda>child s. update_best s child) (children (nodes self ! node)) self"

definition should_terminate :: "MCTSConfig \<Rightarrow> MCTSController \<Rightarrow> SessionContext \<Rightarrow> failure + bool" where
  "should_terminate config self session_ctx =
     (case best_node self of
        None \<Rightarrow> Inl AttributeError
      | Some b \<Rightarrow>
          if fge (current_coverage (state (nodes self ! b))) (s_coverage_target session_ctx)
          then Inr True
          else if no_progress_count self \<ge> max_no_progress_iters config then Inr True
          else if budget_exceeded session_ctx then Inr True
          else Inr False)"

text \<open>The builtin \<open>max(rewards)\<close> on a non-empty list: the first element, replaced by each
  later element that is greater.\<close>

definition max_of :: "pyfloat \<Rightarrow> pyfloat list \<Rightarrow> pyfloat" where
  "max_of r0 rs = fold (\<lambda>x m. py_max m x) rs r0"

text \<open>
  One turn of the main loop of \<open>search\<close>, with the number \<open>iteration\<close> of the loop variable.
  The turn ends the loop (\<open>break\<close>), goes on to the next turn (\<open>continue\<close> or the end of the
  body), or raises; \<open>None\<close> stands for a turn that does not return.
\<close>

datatype step =
    Break MCTSController SessionContext
  | Continue MCTSController SessionContext
  | Raise failure

definition search_step ::
  "runtime \<Rightarrow> generator \<Rightarrow> executor \<Rightarrow> MCTSConfig \<Rightarrow> RewardConfig \<Rightarrow> int
     \<Rightarrow> MCTSController \<Rightarrow> SessionContext \<Rightarrow> step option" where
  "search_step rt g ex config rc iteration self session_ctx =
     (let self1 = self\<lparr> iterations := iteration + 1 \<rparr>
      in case should_terminate config self1 session_ctx of
           Inl e \<Rightarrow> Some (Raise e)
         | Inr True \<Rightarrow> Some (Break self1 session_ctx)
         | Inr False \<Rightarrow>
             (case root self1 of
                None \<Rightarrow> Some (Raise AttributeError)
              | Some r \<Rightarrow>
                  (case selection rt config (nodes self1) r of
                     Inl e \<Rightarrow> Some (Raise e)
                   | Inr None \<Rightarrow> Some (Break self1 session_ctx)
                   | Inr (Some leaf) \<Rightarrow>
                       if is_terminal (state (nodes self1 ! leaf))
                       then Some (Break (update_best self1 leaf) session_ctx)
                       else
                         (let (rewards, self2, session2) =
                                expansion_and_simulation rt g ex config rc self1 leaf session_ctx
                          in case rewards of
                               [] \<Rightarrow> Some (Continue self2 session2)
                             | r0 # rs \<Rightarrow>
                                 (let best_reward = max_of r0 rs
                                  in case backpropagation (rounding rt) (nodes self2) leaf best_reward of
                                       None \<Rightarrow> None
                                     | Some ns \<Rightarrow>
                                         (let self3 = update_best_from_children
                                                        (self2\<lparr> nodes := ns \<rparr>) leaf
                                          in case best_node self3 of
                                               None \<Rightarrow> Some (Raise AttributeError)
                                             | Some b \<Rightarrow>
                                                 (let c = current_coverage (state (nodes self3 ! b));
                                                      self4 =
                                                        (if fgt c (last_best_coverage self3)
                                                         then self3\<lparr> last_best_coverage := c,
                                                                      no_progress_count := 0 \<rparr>
                                                         else self3\<lparr> no_progress_count :=
                                                                        no_progress_count self3 + 1 \<rparr>)
                                                  in Some (Continue self4 session2))))))))"

text \<open>
  The main loop \<open>for iteration in range(max_iterations)\<close>: \<open>todo\<close> counts the turns that are
  left.  The result is \<open>None\<close> if the loop does not return, an exception, or the controller
  and the session context at the end of the loop.
\<close>

fun search_loop ::
  "runtime \<Rightarrow> generator \<Rightarrow> executor \<Rightarrow> MCTSConfig \<Rightarrow> RewardConfig \<Rightarrow> nat \<Rightarrow> int
     \<Rightarrow> MCTSController \<Rightarrow> SessionContext
     \<Rightarrow> (failure + MCTSController \<times> SessionContext) option" where
  "search_loop rt g ex config rc 0 iteration self session_ctx = Some (Inr (self, session_ctx))"
| "search_loop rt g ex config rc (Suc todo) iteration self session_ctx =
     (case search_step rt g ex config rc iteration self session_ctx of
        None \<Rightarrow> None
      | Some (Raise e) \<Rightarrow> Some (Inl e)
      | Some (Break self1 session1) \<Rightarrow> Some (Inr (self1, session1))
      | Some (Continue self1 session1) \<Rightarrow>
          search_loop rt g ex config rc todo (iteration + 1) self1 session1)"

text \<open>
  The controller at the head of the loop of \<open>search\<close>: without an initial state the root
  state is built from the session context and the condition inventory of the executor,
  with the defaults of \<open>TestState\<close> for the other fields.
\<close>

definition search_init ::
  "executor \<Rightarrow> MCTSController \<Rightarrow> SessionContext \<Rightarrow> TestState option \<Rightarrow> MCTSController" where
  "search_init ex self session_ctx initial_state =
     (let (initial_state1, t1) =
            (case initial_state of
               None \<Rightarrow>
                 (let all_conditions =
                        get_all_conditions ex (tick self) (s_function_path session_ctx)
                  in (\<lparr> function_signature = s_function_signature session_ctx,
                         function_path = s_function_path session_ctx,
                         context' = s_context session_ctx,
                         coverage_target = s_coverage_target session_ctx,
                         test_case_names = [],
                         current_coverage = Finite 0,
                         coverage_details = [],
                         uncovered_conditions = all_conditions,
                         execution_errors = [],
                         learned_rules = s_learned_rules session_ctx \<rparr>, tick self + 1))
             | Some s \<Rightarrow> (s, tick self))
      in self\<lparr> nodes := [new_TreeNode initial_state1 None],
                 root := Some 0, best_node := Some 0, iterations := 0,
                 no_progress_count := 0, last_best_coverage := Finite 0, tick := t1 \<rparr>)"

text \<open>\<open>MCTSController.search\<close>.  The result of the search is \<open>best_node\<close> of the returned
  controller.\<close>

definition search ::
  "runtime \<Rightarrow> generator \<Rightarrow> executor \<Rightarrow> MCTSConfig \<Rightarrow> RewardConfig \<Rightarrow> MCTSController
     \<Rightarrow> SessionContext \<Rightarrow> TestState option
     \<Rightarrow> (failure + MCTSController \<times> SessionContext) option" where
  "search rt g ex config rc self session_ctx initial_state =
     search_loop rt g ex config rc (nat (max_iterations config)) 0
       (search_init ex self session_ctx initial_state) session_ctx"

section \<open>Notions used to state the properties\<close>


text \<open>A rounding function keeps the sign: a non-negative real is rounded to a non-negative
  finite value or to the positive infinity.\<close>

definition sign_keeping :: "(real \<Rightarrow> pyfloat) \<Rightarrow> bool" where
  "sign_keeping rnd \<longleftrightarrow>
     (\<forall>x \<ge> 0. rnd x = PosInf \<or> (\<exists>y \<ge> 0. rnd x = Finite y))"

text \<open>
  A store is well formed if every parent reference points at a node allocated before its
  child, and every child reference points into the store.
\<close>

definition wf_store :: "store \<Rightarrow> bool" where
  "wf_store ns \<longleftrightarrow>
     (\<forall>i < length ns.
        (\<forall>p. parent (ns ! i) = Some p \<longrightarrow> p < i) \<and>
        (\<forall>c \<in> set (children (ns ! i)). c < length ns))"

text \<open>
  The strict ancestors of a node, from its parent up to the root.  In a well-formed store
  the test \<open>p < i\<close> always succeeds.
\<close>

function ancestors :: "store \<Rightarrow> nat \<Rightarrow> nat list" where
  "ancestors ns i =
     (case parent (ns ! i) of
        None \<Rightarrow> []
      | Some p \<Rightarrow> if p < i then p # ancestors ns p else [])"
  by pat_completeness auto
termination
  by (relation "measure snd") auto

declare ancestors.simps [simp del]

text \<open>The store and the best node that a search returns (the empty store and \<open>None\<close> if
  it does not return a controller).\<close>

definition nodes_of :: "(failure + MCTSController \<times> SessionContext) option \<Rightarrow> store" where
  "nodes_of res = (case res of Some (Inr (c, s)) \<Rightarrow> nodes c | _ \<Rightarrow> [])"

definition best_of :: "(failure + MCTSController \<times> SessionContext) option \<Rightarrow> nat option" where
  "best_of res = (case res of Some (Inr (c, s)) \<Rightarrow> best_node c | _ \<Rightarrow> None)"

section \<open>Example inputs\<close>

text \<open>
  Two rounding functions for the examples.  The first rounds nothing: it is used where
  every operation of the example is exact in binary64 as well, or where the property does
  not depend on the last bits of a reward.  The second overflows to an infinity from
  \<open>2 ^ 1024\<close> on, as binary64 does, and rounds nothing below.
\<close>

definition exact_rounding :: "real \<Rightarrow> pyfloat" where
  "exact_rounding x = Finite x"

definition overflow_rounding :: "real \<Rightarrow> pyfloat" where
  "overflow_rounding x =
     (if x \<ge> 2 ^ 1024 then PosInf else if x \<le> - (2 ^ 1024) then NegInf else Finite x)"

text \<open>The stable sort of a list of kept candidates by descending reward.\<close>

fun insert_desc :: "TestState \<times> pyfloat \<Rightarrow> (TestState \<times> pyfloat) list \<Rightarrow> (TestState \<times> pyfloat) list" where
  "insert_desc x [] = [x]"
| "insert_desc x (y # ys) = (if flt (snd x) (snd y) then y # insert_desc x ys else x # y # ys)"

definition stable_sort_desc :: "(TestState \<times> pyfloat) list \<Rightarrow> (TestState \<times> pyfloat) list" where
  "stable_sort_desc xs = foldr insert_desc xs []"

definition example_runtime :: runtime where
  "example_runtime =
     \<lparr> rounding = exact_rounding, rounding_log = exact_rounding, sort_desc = stable_sort_desc \<rparr>"

text \<open>A state of the function \<open>calc\<close> with a given coverage and suite, and one condition
  left to cover.\<close>

definition example_state :: "pyfloat \<Rightarrow> string list \<Rightarrow> TestState" where
  "example_state c names =
     \<lparr> function_signature = ''int calc(int x)'', function_path = ''src/main.cpp::calc'',
       context' = [], coverage_target = double_0_95, test_case_names = names,
       current_coverage = c, coverage_details = [],
       uncovered_conditions =
         [\<lparr> condition = ''x > 0'', need_true = True, need_false = False,
            parent_decision = None \<rparr>],
       execution_errors = [], learned_rules = [] \<rparr>"

text \<open>An executor that cannot be reached: every request fails in the transport.\<close>

definition executor_down :: executor where
  "executor_down =
     \<lparr> post_execute = (\<lambda>t r. HTTPError ''connection refused''),
       post_get_coverage = (\<lambda>t r. HTTPError ''connection refused''),
       post_get_conditions = (\<lambda>t r. HTTPError ''connection refused''),
       sha256_16 = (\<lambda>code. take 16 code) \<rparr>"

text \<open>A session context with no tokens used, and a language-model configuration.\<close>

definition example_session :: SessionContext where
  "example_session =
     \<lparr> session_id = ''s1'', s_function_signature = ''int calc(int x)'',
       s_function_path = ''src/main.cpp::calc'', function_code = ''int calc(int x) { return x; }'',
       s_context = [], s_coverage_target = double_0_95, s_max_iterations = 10,
       s_learned_rules = [],
       total_prompt_tokens = 0, total_completion_tokens = 0, max_tokens = 100000,
       created_at = 0, last_accessed = 0 \<rparr>"

definition example_LLMConfig :: LLMConfig where
  "example_LLMConfig =
     \<lparr> api_key = ''k'', base_url = ''https://api.deepseek.com/v1'', model = ''deepseek-chat'',
       temperature = double_0_7, llm_max_tokens = 2048, timeout = 60 \<rparr>"

text \<open>
  A generator whose prompt has five characters and whose language model answers every
  request with the given reply; the response text is parsed to the given value.
\<close>

definition example_generator :: "llm_reply \<Rightarrow> json_data option \<Rightarrow> generator" where
  "example_generator reply parsed =
     \<lparr> render = (\<lambda>req. Inr ''12345''),
       llm_config = example_LLMConfig,
       llm_post = (\<lambda>t attempt pl. reply),
       extract_json = (\<lambda>response. parsed),
       py_hash = (\<lambda>s. int (length s)),
       str_ConditionInfo = condition,
       now = (\<lambda>t. real t) \<rparr>"

text \<open>
  Inputs of the reward function whose weighted sum overflows in both directions: the
  weights of coverage and conditions are \<open>2 ^ 1023\<close>, the others 0; the coverage grows from
  0 to 4 and the uncovered conditions from none to two.
\<close>

definition overflow_RewardConfig :: RewardConfig where
  "overflow_RewardConfig =
     \<lparr> coverage_weight = Finite (2 ^ 1023), compile_reward = Finite 0,
       compile_penalty = Finite 0, condition_weight = Finite (2 ^ 1023),
       suite_size_penalty = Finite 0, early_bonus = Finite 0 \<rparr>"

definition overflow_old_state :: TestState where
  "overflow_old_state = (example_state (Finite 0) [])\<lparr> uncovered_conditions := [] \<rparr>"

definition overflow_new_state :: TestState where
  "overflow_new_state =
     (example_state (Finite 4) [])
       \<lparr> uncovered_conditions :=
           [\<lparr> condition = ''x > 0'', need_true = True, need_false = False,
              parent_decision = None \<rparr>,
            \<lparr> condition = ''y > 0'', need_true = True, need_false = False,
              parent_decision = None \<rparr>] \<rparr>"

definition example_result :: "pyfloat \<Rightarrow> string list \<Rightarrow> ExecutionResult" where
  "example_result c names =
     \<lparr> new_test_name = ''t1'', new_test_compiled = True, error_message = None,
       suite_test_names = names, statement_coverage = c, branch_coverage = c,
       mcdc_coverage = c, conditions_covered = [] \<rparr>"

section \<open>Properties\<close>

subsection \<open>Reward\<close>

lemma py_clip_cases:
  "py_min (py_max w (Finite (- 5))) (Finite 15) =
     (case w of
        NaN \<Rightarrow> NaN
      | PosInf \<Rightarrow> Finite 15
      | NegInf \<Rightarrow> Finite (- 5)
      | Finite x \<Rightarrow> Finite (min (max x (- 5)) 15))"
  by (cases w) (auto simp add: py_min_def py_max_def fgt_def)

text \<open>
  C1 (as stated: for all configuration weights and all field values).  The weights of
  coverage and conditions are \<open>2 ^ 1023\<close>, the coverage grows by 4 and two more conditions
  are uncovered: the coverage reward overflows to the positive infinity, the condition
  reward to the negative infinity, their sum is NaN, and neither \<open>max\<close> nor \<open>min\<close> replaces
  a NaN in first position.  The value returned is NaN, which is not in the interval.
\<close>

theorem compute_overflow_counterexample:
  "compute overflow_rounding overflow_RewardConfig overflow_old_state overflow_new_state
     (example_result (Finite 4) []) = NaN
   \<and> \<not> fle (Finite (- 5))
          (compute overflow_rounding overflow_RewardConfig overflow_old_state overflow_new_state
             (example_result (Finite 4) []))
   \<and> \<not> fle (compute overflow_rounding overflow_RewardConfig overflow_old_state
             overflow_new_state (example_result (Finite 4) []))
          (Finite 15)"
  by (simp add: compute_def weighted_sum_def Let_def overflow_rounding_def
        overflow_RewardConfig_def overflow_old_state_def overflow_new_state_def
        example_result_def example_state_def fsub_def float_of_int_def fgt_def fle_def feq_def
        py_max_def py_min_def)

text \<open>
  C1 (amended).  For every pair of states, every execution result, every choice of the
  configuration weights and every rounding of the arithmetic: if the weighted sum is NaN,
  the value returned by \<open>RewardFunction.compute\<close> is NaN; otherwise it is a finite float in
  the closed interval from -5 to 15.
\<close>

theorem compute_clipped_or_nan:
  "(weighted_sum rnd config old_state new_state exec_result = NaN \<longrightarrow>
      compute rnd config old_state new_state exec_result = NaN)
   \<and> (weighted_sum rnd config old_state new_state exec_result \<noteq> NaN \<longrightarrow>
        (\<exists>x. compute rnd config old_state new_state exec_result = Finite x
             \<and> - 5 \<le> x \<and> x \<le> 15))"
  unfolding compute_def Let_def py_clip_cases
  by (cases "weighted_sum rnd config old_state new_state exec_result") auto

theorem compute_clipped_or_nan_witness:
  "weighted_sum exact_rounding default_RewardConfig (example_state (Finite 0) [])
      (example_state (Finite 0.5) [''t1'']) (example_result (Finite 0.5) [''t1'']) \<noteq> NaN
   \<and> (\<exists>x. compute exact_rounding default_RewardConfig (example_state (Finite 0) [])
              (example_state (Finite 0.5) [''t1'']) (example_result (Finite 0.5) [''t1''])
            = Finite x \<and> - 5 \<le> x \<and> x \<le> 15)"
proof -
  have "weighted_sum exact_rounding default_RewardConfig (example_state (Finite 0) [])
      (example_state (Finite 0.5) [''t1'']) (example_result (Finite 0.5) [''t1'']) \<noteq> NaN"
    by (simp add: weighted_sum_def Let_def exact_rounding_def default_RewardConfig_def
          example_state_def example_result_def fsub_def float_of_int_def fgt_def
          double_0_1_def)
  then show ?thesis
    using compute_clipped_or_nan
            [of exact_rounding default_RewardConfig "example_state (Finite 0) []"
                "example_state (Finite 0.5) [''t1'']" "example_result (Finite 0.5) [''t1'']"]
    by blast
qed

subsection \<open>Language-model client and conditions\<close>

lemma str_nat_500: "str_nat 500 = ''500''"
  by code_simp

text \<open>
  C4 (the code departs from the claim and from its own comments).  The claim and the
  comments of \<open>generate\<close> give sleeps of 2, 4 and 8 seconds.  When every attempt is answered
  with HTTP status 500, the client sleeps 1 second after the first failure and 2 seconds
  after the second, and raises after the third attempt without a third sleep.
\<close>

theorem generate_sleeps_on_status_500:
  "generate config (\<lambda>attempt pl. Status 500 ''err'') prompt temperature_arg max_tokens_arg system_message
   = (Inl (Exception ''LLM generation failed: API error: 500 - err''), [1, 2])"
  by (simp add: generate_def max_retries_def Let_def numeral_3_eq_3 str_nat_500)

text \<open>
  C5 (as stated: equality over all four fields).  Two conditions that differ only in
  \<open>parent_decision\<close> are equal for \<open>__eq__\<close>, although their fields are not all equal.
\<close>

theorem ConditionInfo_eq_counterexample:
  "\<not> (ConditionInfo_eq
        \<lparr> condition = ''x > 0'', need_true = True, need_false = False, parent_decision = None \<rparr>
        \<lparr> condition = ''x > 0'', need_true = True, need_false = False,
          parent_decision = Some ''d1'' \<rparr>
      \<longleftrightarrow>
        (\<lparr> condition = ''x > 0'', need_true = True, need_false = False,
           parent_decision = None \<rparr> :: ConditionInfo)
        = \<lparr> condition = ''x > 0'', need_true = True, need_false = False,
            parent_decision = Some ''d1'' \<rparr>)"
  by (simp add: ConditionInfo_eq_def)

text \<open>
  C5 (amended).  Two conditions are equal if and only if their expression text, \<open>need_true\<close>
  and \<open>need_false\<close> are equal; equal conditions have equal hashes; a condition stays equal
  to itself when only its \<open>parent_decision\<close> changes.
\<close>

theorem ConditionInfo_eq_three_fields:
  "(ConditionInfo_eq a b \<longleftrightarrow>
      condition a = condition b \<and> need_true a = need_true b \<and> need_false a = need_false b)
   \<and> (ConditionInfo_eq a b \<longrightarrow> ConditionInfo_hash h a = ConditionInfo_hash h b)
   \<and> ConditionInfo_eq a (a\<lparr> parent_decision := d \<rparr>)"
  by (simp add: ConditionInfo_eq_def ConditionInfo_hash_def)

theorem ConditionInfo_eq_three_fields_witness:
  "ConditionInfo_eq
     \<lparr> condition = ''x > 0'', need_true = True, need_false = False, parent_decision = None \<rparr>
     \<lparr> condition = ''x > 0'', need_true = True, need_false = False, parent_decision = Some ''d1'' \<rparr>
   \<and> ConditionInfo_hash (\<lambda>(c, t, f). int (length c))
        \<lparr> condition = ''x > 0'', need_true = True, need_false = False, parent_decision = None \<rparr>
     = ConditionInfo_hash (\<lambda>(c, t, f). int (length c))
        \<lparr> condition = ''x > 0'', need_true = True, need_false = False,
          parent_decision = Some ''d1'' \<rparr>"
  using ConditionInfo_eq_three_fields
    [of "\<lparr> condition = ''x > 0'', need_true = True, need_false = False, parent_decision = None \<rparr>"
        "\<lparr> condition = ''x > 0'', need_true = True, need_false = False,
           parent_decision = Some ''d1'' \<rparr>"
        "\<lambda>(c, t, f). int (length c)"]
  by simp

subsection \<open>Executor client\<close>

text \<open>
  C6 (as stated: every operation, also on a fingerprint-cache hit).  The executor cannot
  be reached and the body of the candidate is in the fingerprint cache under the name
  \<open>t1\<close>: the coverage request fails in the transport, and the result has
  \<open>compiled = true\<close> and a suite that is not the caller's (empty) suite.
\<close>

theorem execute_new_test_cache_hit_counterexample:
  "post_get_coverage executor_down 0 (''f'', [''t1'']) = HTTPError ''connection refused''
   \<and> new_test_compiled
        (fst (execute_new_test exact_rounding executor_down 0 [''body'' \<mapsto> ''t1'']
                ''f'' ''body'' ''t2'' [])) = True
   \<and> suite_test_names
        (fst (execute_new_test exact_rounding executor_down 0 [''body'' \<mapsto> ''t1'']
                ''f'' ''body'' ''t2'' []))
       = [''t1'']"
  by (simp add: execute_new_test_def get_suite_coverage_def coverage_error_result_def
        executor_down_def Let_def)

text \<open>
  C6 (amended).  \<open>execute_new_test\<close> returns a result on every transport failure.  When the
  body is not in the fingerprint cache, a request that fails with an HTTP error or with
  another exception of the transport gives \<open>compiled = false\<close>, the reason as error and the
  caller's existing names as suite, and leaves the cache as it was; a response whose
  parsing raises gives the same result, but the body has been entered in the cache if
  the status of the response is \<open>"success"\<close>.  When the body is in the cache and the
  coverage request fails, the result has the reason as error, \<open>compiled = true\<close>, and as
  suite the names sent with the coverage request: the existing names, with the cached
  name appended if it is not among them.
\<close>

theorem execute_new_test_failure:
  "(tc (sha256_16 ex test_code) = None \<longrightarrow>
      (post_execute ex t (fpath, test_code, test_name, existing) = HTTPError e \<longrightarrow>
         execute_new_test rnd ex t tc fpath test_code test_name existing =
           (\<lparr> new_test_name = test_name, new_test_compiled = False,
              error_message = Some (''HTTP error: '' @ e), suite_test_names = existing,
              statement_coverage = Finite 0, branch_coverage = Finite 0,
              mcdc_coverage = Finite 0, conditions_covered = [] \<rparr>, tc))
    \<and> (post_execute ex t (fpath, test_code, test_name, existing) = OtherError e \<longrightarrow>
         execute_new_test rnd ex t tc fpath test_code test_name existing =
           (\<lparr> new_test_name = test_name, new_test_compiled = False,
              error_message = Some (''Execution error: '' @ e), suite_test_names = existing,
              statement_coverage = Finite 0, branch_coverage = Finite 0,
              mcdc_coverage = Finite 0, conditions_covered = [] \<rparr>, tc))
    \<and> (post_execute ex t (fpath, test_code, test_name, existing) = BodyRaises success e \<longrightarrow>
         execute_new_test rnd ex t tc fpath test_code test_name existing =
           (\<lparr> new_test_name = test_name, new_test_compiled = False,
              error_message = Some (''Execution error: '' @ e), suite_test_names = existing,
              statement_coverage = Finite 0, branch_coverage = Finite 0,
              mcdc_coverage = Finite 0, conditions_covered = [] \<rparr>,
            if success then tc(sha256_16 ex test_code \<mapsto> test_name) else tc)))
   \<and> (tc (sha256_16 ex test_code) = Some cached_name
        \<and> (post_get_coverage ex t
              (fpath, if cached_name \<in> set existing then existing else existing @ [cached_name])
              = HTTPError e
            \<or> post_get_coverage ex t
              (fpath, if cached_name \<in> set existing then existing else existing @ [cached_name])
              = OtherError e
            \<or> post_get_coverage ex t
              (fpath, if cached_name \<in> set existing then existing else existing @ [cached_name])
              = BodyRaises success e) \<longrightarrow>
         execute_new_test rnd ex t tc fpath test_code test_name existing =
           (\<lparr> new_test_name = [], new_test_compiled = True,
              error_message = Some (''Coverage retrieval error: '' @ e),
              suite_test_names =
                (if cached_name \<in> set existing then existing else existing @ [cached_name]),
              statement_coverage = Finite 0, branch_coverage = Finite 0,
              mcdc_coverage = Finite 0, conditions_covered = [] \<rparr>, tc))"
  by (auto simp add: execute_new_test_def get_suite_coverage_def coverage_error_result_def
        execution_error_result_def Let_def)

theorem execute_new_test_failure_witness:
  "execute_new_test exact_rounding executor_down 0 Map.empty ''f'' ''body'' ''t2'' [''t1''] =
     (\<lparr> new_test_name = ''t2'', new_test_compiled = False,
        error_message = Some ''HTTP error: connection refused'', suite_test_names = [''t1''],
        statement_coverage = Finite 0, branch_coverage = Finite 0, mcdc_coverage = Finite 0,
        conditions_covered = [] \<rparr>, Map.empty)
   \<and> execute_new_test exact_rounding executor_down 0 [''body'' \<mapsto> ''t1'']
        ''f'' ''body'' ''t2'' [] =
     (\<lparr> new_test_name = [], new_test_compiled = True,
        error_message = Some ''Coverage retrieval error: connection refused'',
        suite_test_names = [''t1''],
        statement_coverage = Finite 0, branch_coverage = Finite 0, mcdc_coverage = Finite 0,
        conditions_covered = [] \<rparr>, [''body'' \<mapsto> ''t1''])"
  using execute_new_test_failure
          [where tc = Map.empty and ex = executor_down and test_code = "''body''" and t = 0
             and fpath = "''f''" and test_name = "''t2''" and existing = "[''t1'']"
             and e = "''connection refused''" and rnd = exact_rounding and success = False]
        execute_new_test_failure
          [where tc = "[''body'' \<mapsto> ''t1'']" and ex = executor_down
             and test_code = "''body''" and t = 0 and fpath = "''f''" and test_name = "''t2''"
             and existing = "[]" and e = "''connection refused''" and rnd = exact_rounding
             and cached_name = "''t1''" and success = False]
  by (simp add: executor_down_def)

subsection \<open>Token accounting\<close>

lemma generate_first_reply_ok:
  "fst (generate example_LLMConfig (\<lambda>attempt pl. Ok200 ''abcde'') p t m s) = Inr ''abcde''"
  by (simp add: generate_def max_retries_def Let_def numeral_3_eq_3)

text \<open>
  C7 (as stated: ceiling division).  The prompt has five characters and the language model
  answers at once: the prompt-side counter of the session does not grow by the ceiling of
  5 / 4, which is 2 (it grows by 1).
\<close>

theorem generate_candidates_ceiling_counterexample:
  "render (example_generator (Ok200 ''abcde'') None)
        (prompt_request_for (example_generator (Ok200 ''abcde'') None)
           [new_TreeNode (example_state (Finite 0) []) None] 0 example_session 5) = Inr ''12345''
   \<and> total_prompt_tokens
        (snd (generate_candidates (example_generator (Ok200 ''abcde'') None) 0
                [new_TreeNode (example_state (Finite 0) []) None] 0 example_session 5))
       \<noteq> total_prompt_tokens example_session + \<lceil>real (length ''12345'') / 4\<rceil>"
  by (simp add: generate_candidates_def Let_def add_token_usage_def example_generator_def
        example_session_def generate_first_reply_ok)

text \<open>
  C7 (amended).  For every call of the language model made during expansion with prompt
  text \<open>p\<close> that returns the response text \<open>r\<close>, the token counters of the session grow by
  exactly the floor of \<open>len(p) / 4\<close> on the prompt side and the floor of \<open>len(r) / 4\<close> on
  the completion side.
\<close>

theorem generate_candidates_token_usage:
  "render g (prompt_request_for g ns node session_ctx k) = Inr p \<Longrightarrow>
   fst (generate (llm_config g) (llm_post g t) p
          (Some (adaptive_temperature (current_coverage (state (ns ! node))))) (Some 2048) None)
     = Inr r \<Longrightarrow>
   total_prompt_tokens (snd (generate_candidates g t ns node session_ctx k))
     = total_prompt_tokens session_ctx + int (length p) div 4
   \<and> total_completion_tokens (snd (generate_candidates g t ns node session_ctx k))
     = total_completion_tokens session_ctx + int (length r) div 4"
  by (simp add: generate_candidates_def Let_def add_token_usage_def
           split: option.splits json_data.splits)

theorem generate_candidates_token_usage_witness:
  "total_prompt_tokens
        (snd (generate_candidates (example_generator (Ok200 ''abcde'') None) 0
                [new_TreeNode (example_state (Finite 0) []) None] 0 example_session 5)) = 1
   \<and> total_completion_tokens
        (snd (generate_candidates (example_generator (Ok200 ''abcde'') None) 0
                [new_TreeNode (example_state (Finite 0) []) None] 0 example_session 5)) = 1"
  using generate_candidates_token_usage
     [of "example_generator (Ok200 ''abcde'') None" "[new_TreeNode (example_state (Finite 0) []) None]" 0
         example_session 5 "''12345''" 0 "''abcde''"]
  by (simp add: example_generator_def example_session_def generate_first_reply_ok)

subsection \<open>Adaptive number of candidates\<close>








subsection \<open>Request gateway\<close>

text \<open>
  C9 (the code departs from the claim).  For every state of the session cache the handler
  of \<open>GET /sessions\<close> raises \<open>KeyError\<close>: it reads the key \<open>active_sessions\<close> of the
  statistics, which \<open>get_stats\<close> does not provide.
\<close>

theorem list_sessions_raises:
  "list_sessions context_manager = Inl (KeyError ''active_sessions'')"
  by (simp add: list_sessions_def get_stats_def getitem_def Let_def)

end
